theory Spec2Isabelle
  imports Main
begin

section \<open>Strings\<close>

text \<open>
  A JavaScript string is a sequence of code units. The two string operations the
  resolver uses only compare code units for equality, so they are defined for lists
  over any alphabet; the program's identifiers are \<^typ>\<open>string\<close>s.
\<close>

text \<open>\<^verbatim>\<open>s.startsWith(searchString)\<close>, with the default position 0.\<close>

definition startsWith :: "'a list \<Rightarrow> 'a list \<Rightarrow> bool" where
  "startsWith s searchString = (take (length searchString) s = searchString)"

text \<open>
  \<^verbatim>\<open>s.replace(pattern, replacement)\<close> for a string pattern: the leftmost occurrence of
  the pattern is replaced and the rest of the string is kept; a string without an
  occurrence is returned as it is. An empty pattern occurs at position 0. Both call sites
  pass the empty replacement, which holds no \<^verbatim>\<open>$\<close> replacement pattern.
\<close>

fun replace :: "'a list \<Rightarrow> 'a list \<Rightarrow> 'a list \<Rightarrow> 'a list" where
  "replace [] pattern replacement = (if pattern = [] then replacement else [])"
| "replace (c # cs) pattern replacement =
     (if startsWith (c # cs) pattern
      then replacement @ drop (length pattern) (c # cs)
      else c # replace cs pattern replacement)"

text \<open>\<^verbatim>\<open>xs.join(separator)\<close> on a list of strings.\<close>

fun join :: "string list \<Rightarrow> string \<Rightarrow> string" where
  "join [] separator = []"
| "join [x] separator = x"
| "join (x # y # ys) separator = x @ separator @ join (y # ys) separator"

section \<open>Provider resolution (lib/ai/index.ts)\<close>

text \<open>
  The three provider constructors are imported from the provider SDKs. A constructor
  takes a backend-specific model name; what it returns (a model, or a thrown error) is
  the type parameter \<open>'r\<close>.
\<close>

record 'r providers =
  anthropic :: "string \<Rightarrow> 'r"
  bedrock :: "string \<Rightarrow> 'r"
  openai :: "string \<Rightarrow> 'r"

definition createProviderModel :: "'r providers \<Rightarrow> string \<Rightarrow> 'r" where
  "createProviderModel sdk apiIdentifier =
     (if startsWith apiIdentifier ''anthropic:'' then
        (let modelId = replace apiIdentifier ''anthropic:'' '''' in anthropic sdk modelId)
      else if startsWith apiIdentifier ''bedrock:'' then
        (let modelId = replace apiIdentifier ''bedrock:'' '''' in bedrock sdk modelId)
      else openai sdk apiIdentifier)"

text \<open>
  \<^verbatim>\<open>customModel\<close> evaluates its argument \<^verbatim>\<open>createProviderModel(apiIdentifier)\<close> first; a
  throw there leaves the function before \<^verbatim>\<open>wrapLanguageModel\<close> is called. A thrown
  error is \<open>Inl\<close>. \<^verbatim>\<open>wrapLanguageModel\<close> (package \<^verbatim>\<open>ai\<close>) and \<^verbatim>\<open>customMiddleware\<close>
  (module \<^verbatim>\<open>./custom-middleware\<close>) are imported, and are parameters here.
\<close>

definition customModel ::
  "('m \<Rightarrow> 'w \<Rightarrow> 'e + 'h) \<Rightarrow> 'w \<Rightarrow> ('e + 'm) providers \<Rightarrow> string \<Rightarrow> 'e + 'h" where
  "customModel wrapLanguageModel customMiddleware sdk apiIdentifier =
     (case createProviderModel sdk apiIdentifier of
        Inl err \<Rightarrow> Inl err
      | Inr model \<Rightarrow> wrapLanguageModel model customMiddleware)"

text \<open>
  The call an identifier leads to, as a value: which constructor, with which name.
  \<open>recording\<close> is the SDK whose constructors only report their own call, and
  \<open>invoke\<close> performs a reported call on a real SDK.
\<close>

datatype provider = Anthropic | Bedrock | OpenAI

definition recording :: "(provider \<times> string) providers" where
  "recording = \<lparr>anthropic = Pair Anthropic, bedrock = Pair Bedrock, openai = Pair OpenAI\<rparr>"

fun invoke :: "'r providers \<Rightarrow> provider \<times> string \<Rightarrow> 'r" where
  "invoke sdk (Anthropic, name) = anthropic sdk name"
| "invoke sdk (Bedrock, name) = bedrock sdk name"
| "invoke sdk (OpenAI, name) = openai sdk name"

section \<open>The specification's resolver and factory\<close>

text \<open>
  The specification's words, for comparison with the code. A Provider Entry pairs a
  namespace tag with a constructor. \<open>resolve\<close> goes through the entries in their fixed
  order and tests whether the identifier starts with the entry's tag followed by the
  delimiter; the first match strips tag and delimiter and calls that entry's constructor
  with the remainder; with no match the default provider's constructor gets the entire
  identifier. \<open>getModel\<close> calls \<open>resolve\<close>, then wraps the result with the configured
  stage list.
\<close>

record 'r ProviderEntry =
  namespaceTag :: string
  construct :: "string \<Rightarrow> 'r"

definition delimiter :: string where
  "delimiter = '':''"

fun resolve :: "'r ProviderEntry list \<Rightarrow> (string \<Rightarrow> 'r) \<Rightarrow> string \<Rightarrow> 'r" where
  "resolve [] defaultProvider identifier = defaultProvider identifier"
| "resolve (entry # entries) defaultProvider identifier =
     (if startsWith identifier (namespaceTag entry @ delimiter)
      then construct entry (drop (length (namespaceTag entry @ delimiter)) identifier)
      else resolve entries defaultProvider identifier)"

definition getModel ::
  "('m \<Rightarrow> 'w \<Rightarrow> 'e + 'h) \<Rightarrow> 'w \<Rightarrow> ('e + 'm) ProviderEntry list \<Rightarrow> (string \<Rightarrow> 'e + 'm)
     \<Rightarrow> string \<Rightarrow> 'e + 'h" where
  "getModel wrapWith stages registry defaultProvider identifier =
     (case resolve registry defaultProvider identifier of
        Inl err \<Rightarrow> Inl err
      | Inr model \<Rightarrow> wrapWith model stages)"

text \<open>The registry the code's branches amount to, in the order of the branches.\<close>

definition registry :: "'r providers \<Rightarrow> 'r ProviderEntry list" where
  "registry sdk =
     [\<lparr>namespaceTag = ''anthropic'', construct = anthropic sdk\<rparr>,
      \<lparr>namespaceTag = ''bedrock'', construct = bedrock sdk\<rparr>]"

section \<open>The model catalog (lib/ai/models.ts)\<close>

text \<open>
  The field \<^verbatim>\<open>id\<close> is \<open>id_field\<close> here, since \<open>id\<close> is the identity function of HOL.
  The two descriptions that hold the character U+2019 carry it as its three UTF-8 bytes.
\<close>

record Model =
  id_field :: string
  label :: string
  apiIdentifier :: string
  description :: string

definition models :: "Model list" where
  "models =
    [\<lparr>id_field = ''bedrock:anthropic.claude-3-haiku-20240307-v1:0'',
      label = ''Bedrock - Claude 3 Haiku'',
      apiIdentifier = ''bedrock:anthropic.claude-3-haiku-20240307-v1:0'',
      description = ''Anthropic Claude on Amazon Bedrock with Haiku 3 variant''\<rparr>,
     \<lparr>id_field = ''bedrock:anthropic.claude-3-5-haiku-20241022-v1:0'',
      label = ''Bedrock - Claude 3.5 Haiku'',
      apiIdentifier = ''bedrock:anthropic.claude-3-5-haiku-20241022-v1:0'',
      description = ''Anthropic Claude on Amazon Bedrock with Haiku 3.5 variant''\<rparr>,
     \<lparr>id_field = ''bedrock:anthropic.claude-3-5-sonnet-20241022-v2:0'',
      label = ''Bedrock - Claude 3.5 Sonnet V2'',
      apiIdentifier = ''bedrock:anthropic.claude-3-5-sonnet-20241022-v2:0'',
      description = ''Anthropic Claude on Amazon Bedrock with Sonnet variant''\<rparr>,
     \<lparr>id_field = ''gpt-4o-mini'',
      label = ''OpenAI - GPT 4o mini'',
      apiIdentifier = ''gpt-4o-mini'',
      description = ''Small model for fast, lightweight tasks''\<rparr>,
     \<lparr>id_field = ''gpt-4o'',
      label = ''OpenAI - GPT 4o'',
      apiIdentifier = ''gpt-4o'',
      description = ''For complex, multi-step tasks''\<rparr>,
     \<lparr>id_field = ''anthropic:claude-3-5-haiku-20241022'',
      label = ''Anthropic - Claude 3.5 Haiku'',
      apiIdentifier = ''anthropic:claude-3-5-haiku-20241022'',
      description = ''Anthropic'' @ [CHR 0xE2, CHR 0x80, CHR 0x99]
        @ ''s faster Claude model for simpler tasks''\<rparr>,
     \<lparr>id_field = ''anthropic:claude-3-5-sonnet-20241022'',
      label = ''Anthropic - Claude 3.5 Sonnet V2)'',
      apiIdentifier = ''anthropic:claude-3-5-sonnet-20241022'',
      description = ''Anthropic'' @ [CHR 0xE2, CHR 0x80, CHR 0x99]
        @ ''s advanced Claude model for complex tasks''\<rparr>]"

definition DEFAULT_MODEL_NAME :: string where
  "DEFAULT_MODEL_NAME = ''gpt-4o-mini''"

section \<open>The logger (lib/utilities/logger.ts)\<close>



text \<open>
  The console is the list of the lines written so far, each with the console method
  that wrote it.
\<close>

datatype console_method = Console_debug | Console_log | Console_warn | Console_error

type_synonym console = "(console_method \<times> string) list"

text \<open>
  A logger is an object of four write operations. An operation takes its arguments and
  the console; \<open>'r\<close> is what it leaves: the console, or a thrown error.
\<close>

record ('a, 'r) logger =
  debug :: "'a list \<Rightarrow> console \<Rightarrow> 'r"
  info :: "'a list \<Rightarrow> console \<Rightarrow> 'r"
  warn :: "'a list \<Rightarrow> console \<Rightarrow> 'r"
  error :: "'a list \<Rightarrow> console \<Rightarrow> 'r"







section \<open>The file upload endpoint\<close>

text \<open>
  An entry of the submitted form is a file or a string. A file has a name, a size in
  bytes, a media type and its bytes (what \<^verbatim>\<open>arrayBuffer()\<close> resolves to). The fields
  \<^verbatim>\<open>size\<close> and \<^verbatim>\<open>type\<close> are \<open>size_field\<close> and \<open>type_field\<close> here.
\<close>

record 'b File =
  name :: string
  size_field :: nat
  type_field :: string
  arrayBuffer :: 'b

datatype 'b FormDataEntryValue = File_entry "'b File" | String_entry string

text \<open>
  \<^verbatim>\<open>FileSchema.safeParse({ file })\<close>: the messages of the issues found, or the validated
  file. An entry that is no \<^verbatim>\<open>Blob\<close> stops at the instance check, whose message is the
  schema library's; on a \<^verbatim>\<open>Blob\<close> both refinements run, in their order.
\<close>

definition FileSchema_safeParse :: "'b FormDataEntryValue \<Rightarrow> string list + 'b File" where
  "FileSchema_safeParse file =
     (case file of
        String_entry s \<Rightarrow> Inl [''Input not instance of Blob'']
      | File_entry f \<Rightarrow>
          (let issues =
             (if size_field f \<le> 5 * 1024 * 1024 then []
              else [''File size should be less than 5MB'']) @
             (if type_field f \<in> set [''image/jpeg'', ''image/png''] then []
              else [''File type should be JPEG or PNG''])
           in if issues = [] then Inr f else Inl issues))"

text \<open>
  \<^verbatim>\<open>!file\<close> on an entry that \<^verbatim>\<open>formData.get('file')\<close> returns: of the entries only the
  empty string is falsy (as is null, the absent entry).
\<close>

fun falsy :: "'b FormDataEntryValue \<Rightarrow> bool" where
  "falsy (String_entry s) = (s = [])"
| "falsy (File_entry f) = False"

datatype 'd body = Json_error string | Json_data 'd | Text string

record 'd Response =
  status :: nat
  body :: "'d body"

text \<open>
  Of the request the handler reads whether the body is null and what
  \<^verbatim>\<open>request.formData()\<close> resolves to: the form, or the error it rejects with.
\<close>

record ('b, 'x) Request =
  body_is_null :: bool
  formData :: "'x + (string \<Rightarrow> 'b FormDataEntryValue option)"

text \<open>An argument of a logger call: a message, or a caught error.\<close>

datatype 'x log_arg = Message string | Caught 'x

text \<open>What the handler can change: the blob storage behind \<^verbatim>\<open>put\<close>, and the console.\<close>

record 's world =
  storage :: 's
  console_out :: console

text \<open>
  \<^verbatim>\<open>POST\<close>. The logger is the module's \<^verbatim>\<open>createLogger('FileUpload')\<close>, here with
  operations that leave the console: the handler hands them messages and caught errors.
  \<^verbatim>\<open>put\<close>
  (package \<^verbatim>\<open>@vercel/blob\<close>) takes the file name and the bytes, and returns the descriptor
  or throws, with the storage it leaves; \<open>session\<close> is what \<^verbatim>\<open>auth()\<close> resolves to, or the
  error it rejects with, which leaves the handler since the call is outside the
  \<^verbatim>\<open>try\<close>. The result is the response, or \<open>Inl\<close> the error the handler rejects with.
\<close>

definition POST ::
  "('x log_arg, console) logger \<Rightarrow> (string \<Rightarrow> 'b \<Rightarrow> 's \<Rightarrow> ('x + 'd) \<times> 's)
     \<Rightarrow> 'x + 'u option
     \<Rightarrow> ('b, 'x) Request \<Rightarrow> 's world \<Rightarrow> ('x + 'd Response) \<times> 's world" where
  "POST logger put session request w =
     (case session of
        Inl rejection \<Rightarrow> (Inl rejection, w)
      | Inr None \<Rightarrow>
          (Inr \<lparr>status = 401, body = Json_error ''Unauthorized''\<rparr>,
           w\<lparr>console_out := error logger [Message ''Unauthorized access attempt''] (console_out w)\<rparr>)
      | Inr (Some user) \<Rightarrow>
          if body_is_null request then
            (Inr \<lparr>status = 400, body = Text ''Request body is empty''\<rparr>,
             w\<lparr>console_out := warn logger [Message ''Request body is empty''] (console_out w)\<rparr>)
          else
            (case formData request of
               Inl err \<Rightarrow>
                 (Inr \<lparr>status = 500, body = Json_error ''Failed to process request''\<rparr>,
                  w\<lparr>console_out :=
                      error logger [Message ''Failed to process request'', Caught err]
                        (console_out w)\<rparr>)
             | Inr form \<Rightarrow>
                 (let noFile =
                        (Inr \<lparr>status = 400, body = Json_error ''No file uploaded''\<rparr>,
                         w\<lparr>console_out :=
                             warn logger [Message ''No file uploaded''] (console_out w)\<rparr>)
                  in case form ''file'' of
                       None \<Rightarrow> noFile
                     | Some file \<Rightarrow>
                         if falsy file then noFile
                         else
                           (case FileSchema_safeParse file of
                              Inl issues \<Rightarrow>
                                (let errorMessage = join issues '','' in
                                 (Inr \<lparr>status = 400, body = Json_error errorMessage\<rparr>,
                                  w\<lparr>console_out :=
                                      warn logger
                                        [Message (''File validation failed: '' @ errorMessage)]
                                        (console_out w)\<rparr>))
                            | Inr validated \<Rightarrow>
                                (let filename = name validated;
                                     fileBuffer = arrayBuffer validated
                                 in case put filename fileBuffer (storage w) of
                                      (Inr data, stored) \<Rightarrow>
                                        (Inr \<lparr>status = 200, body = Json_data data\<rparr>,
                                         \<lparr>storage = stored,
                                          console_out =
                                            info logger
                                              [Message
                                                 (''File uploaded successfully: '' @ filename)]
                                              (console_out w)\<rparr>)
                                    | (Inl err, stored) \<Rightarrow>
                                        (Inr \<lparr>status = 500, body = Json_error ''Upload failed''\<rparr>,
                                         \<lparr>storage = stored,
                                          console_out =
                                            error logger [Message ''Upload failed'', Caught err]
                                              (console_out w)\<rparr>))))))"

section \<open>The middleware chain\<close>

text \<open>
  Modelled from the spec: the Middleware Stage and the Callable Model Object of the
  specification's data model. The sources hold neither: \<^verbatim>\<open>customModel\<close> hands the
  imported \<^verbatim>\<open>customMiddleware\<close> to the imported \<^verbatim>\<open>wrapLanguageModel\<close>. A stage is an
  optional triple of functions. A wrapping function receives the continuation (the rest
  of the chain plus the real call) and the call parameters, already transformed. A
  callable model object has the two operations generate and stream.
\<close>

record ('p, 'r, 's) MiddlewareStage =
  transformParams :: "('p \<Rightarrow> 'p) option"
  wrapGenerate :: "((unit \<Rightarrow> 'r) \<Rightarrow> 'p \<Rightarrow> 'r) option"
  wrapStream :: "((unit \<Rightarrow> 's) \<Rightarrow> 'p \<Rightarrow> 's) option"

record ('p, 'r, 's) CallableModelObject =
  generate :: "'p \<Rightarrow> 'r"
  stream :: "'p \<Rightarrow> 's"

text \<open>
  Modelled from the spec: parameter transformation. The call parameters pass through
  every stage's \<^verbatim>\<open>transformParams\<close>, if present, in list order; each stage receives the
  previous stage's output, and a stage without \<^verbatim>\<open>transformParams\<close> passes the parameters
  on unchanged.
\<close>

fun transformAll :: "('p, 'r, 's) MiddlewareStage list \<Rightarrow> 'p \<Rightarrow> 'p" where
  "transformAll [] params = params"
| "transformAll (stage # stages) params =
     transformAll stages
       (case transformParams stage of None \<Rightarrow> params | Some transform \<Rightarrow> transform params)"

text \<open>
  Modelled from the spec: call wrapping. For the stages \<^verbatim>\<open>[S1, ..., Sn]\<close> the first stage is
  the outermost wrapper and the last is closest to the real call; a stage without the
  wrapping function is transparent. \<open>hook\<close> selects \<^verbatim>\<open>wrapGenerate\<close> or \<^verbatim>\<open>wrapStream\<close>.
\<close>

fun wrapCall ::
  "(('p, 'r, 's) MiddlewareStage \<Rightarrow> ((unit \<Rightarrow> 'a) \<Rightarrow> 'p \<Rightarrow> 'a) option)
     \<Rightarrow> ('p, 'r, 's) MiddlewareStage list \<Rightarrow> (unit \<Rightarrow> 'a) \<Rightarrow> 'p \<Rightarrow> 'a" where
  "wrapCall hook [] realCall params = realCall ()"
| "wrapCall hook (stage # stages) realCall params =
     (case hook stage of
        None \<Rightarrow> wrapCall hook stages realCall params
      | Some wrapper \<Rightarrow> wrapper (\<lambda>_. wrapCall hook stages realCall params) params)"

text \<open>
  Modelled from the spec: \<^verbatim>\<open>wrap(model, stages)\<close>. Either operation of the wrapped object
  first transforms the parameters and then runs the wrappers around the real call, which
  is made on the innermost model with the transformed parameters.
\<close>

definition wrap ::
  "('p, 'r, 's) CallableModelObject \<Rightarrow> ('p, 'r, 's) MiddlewareStage list
     \<Rightarrow> ('p, 'r, 's) CallableModelObject" where
  "wrap model stages =
     \<lparr>generate = (\<lambda>params.
        let transformed = transformAll stages params
        in wrapCall wrapGenerate stages (\<lambda>_. generate model transformed) transformed),
      stream = (\<lambda>params.
        let transformed = transformAll stages params
        in wrapCall wrapStream stages (\<lambda>_. stream model transformed) transformed)\<rparr>"

section \<open>Facts about the string operations\<close>

lemma startsWith_iff_append: "startsWith s p \<longleftrightarrow> (\<exists>r. s = p @ r)"
proof
  assume "startsWith s p"
  then have "s = p @ drop (length p) s"
    unfolding startsWith_def by (metis append_take_drop_id)
  then show "\<exists>r. s = p @ r" ..
next
  assume "\<exists>r. s = p @ r"
  then show "startsWith s p"
    unfolding startsWith_def by auto
qed

lemma replace_at_start:
  "startsWith s p \<Longrightarrow> replace s p r = r @ drop (length p) s"
  by (cases s) (auto simp: startsWith_def)

lemma bedrock_not_anthropic:
  "startsWith s ''bedrock:'' \<Longrightarrow> \<not> startsWith s ''anthropic:''"
  by (auto simp: startsWith_iff_append)

section \<open>Resolution of tagged identifiers\<close>

text \<open>
  C1. An identifier that starts with \<^verbatim>\<open>anthropic:\<close> is resolved by the anthropic
  constructor, and one that starts with \<^verbatim>\<open>bedrock:\<close> by the bedrock constructor; in both
  cases the constructor receives exactly the identifier without that prefix. The
  constructors are arbitrary, so this holds whatever they do with the name.
\<close>

theorem createProviderModel_tagged:
  "(startsWith identifier ''anthropic:'' \<longrightarrow>
      createProviderModel sdk identifier
        = anthropic sdk (drop (length ''anthropic:'') identifier)) \<and>
   (startsWith identifier ''bedrock:'' \<longrightarrow>
      createProviderModel sdk identifier
        = bedrock sdk (drop (length ''bedrock:'') identifier)) \<and>
   createProviderModel sdk (''anthropic:'' @ rest) = anthropic sdk rest \<and>
   createProviderModel sdk (''bedrock:'' @ rest) = bedrock sdk rest"
proof -
  have a: "createProviderModel sdk i = anthropic sdk (drop (length ''anthropic:'') i)"
    if "startsWith i ''anthropic:''" for i
    using that by (simp add: createProviderModel_def replace_at_start)
  have b: "createProviderModel sdk i = bedrock sdk (drop (length ''bedrock:'') i)"
    if "startsWith i ''bedrock:''" for i
    using that bedrock_not_anthropic [OF that]
    by (simp add: createProviderModel_def replace_at_start)
  have "startsWith (''anthropic:'' @ rest) ''anthropic:''"
    by (simp add: startsWith_def)
  from a [OF this] have c: "createProviderModel sdk (''anthropic:'' @ rest) = anthropic sdk rest"
    by simp
  have "startsWith (''bedrock:'' @ rest) ''bedrock:''"
    by (simp add: startsWith_def)
  from b [OF this] have d: "createProviderModel sdk (''bedrock:'' @ rest) = bedrock sdk rest"
    by simp
  from a b c d show ?thesis by blast
qed

theorem createProviderModel_tagged_witness:
  "startsWith ''anthropic:claude-3-5-sonnet-20241022'' ''anthropic:'' \<and>
   createProviderModel
     \<lparr>anthropic = (\<lambda>n. (''anthropic'', n)), bedrock = (\<lambda>n. (''bedrock'', n)),
      openai = (\<lambda>n. (''openai'', n))\<rparr>
     ''anthropic:claude-3-5-sonnet-20241022''
     = (''anthropic'', ''claude-3-5-sonnet-20241022'') \<and>
   startsWith ''bedrock:anthropic.claude-3-haiku-20240307-v1:0'' ''bedrock:'' \<and>
   createProviderModel
     \<lparr>anthropic = (\<lambda>n. (''anthropic'', n)), bedrock = (\<lambda>n. (''bedrock'', n)),
      openai = (\<lambda>n. (''openai'', n))\<rparr>
     ''bedrock:anthropic.claude-3-haiku-20240307-v1:0''
     = (''bedrock'', ''anthropic.claude-3-haiku-20240307-v1:0'')"
  using createProviderModel_tagged
    [of "''anthropic:claude-3-5-sonnet-20241022''"
        "\<lparr>anthropic = (\<lambda>n. (''anthropic'', n)), bedrock = (\<lambda>n. (''bedrock'', n)),
          openai = (\<lambda>n. (''openai'', n))\<rparr>"]
    createProviderModel_tagged
    [of "''bedrock:anthropic.claude-3-haiku-20240307-v1:0''"
        "\<lparr>anthropic = (\<lambda>n. (''anthropic'', n)), bedrock = (\<lambda>n. (''bedrock'', n)),
          openai = (\<lambda>n. (''openai'', n))\<rparr>"]
  by (simp add: startsWith_def)

section \<open>Resolution of untagged identifiers\<close>

text \<open>
  C2. An identifier that starts with neither \<^verbatim>\<open>anthropic:\<close> nor \<^verbatim>\<open>bedrock:\<close> is passed
  whole and unmodified to the openai constructor.
\<close>

theorem createProviderModel_default:
  "\<not> startsWith identifier ''anthropic:'' \<Longrightarrow>
   \<not> startsWith identifier ''bedrock:'' \<Longrightarrow>
   createProviderModel sdk identifier = openai sdk identifier"
  by (simp add: createProviderModel_def)

theorem createProviderModel_default_witness:
  "\<not> startsWith ''gpt-4o-mini'' ''anthropic:'' \<and>
   \<not> startsWith ''gpt-4o-mini'' ''bedrock:'' \<and>
   createProviderModel
     \<lparr>anthropic = (\<lambda>n. (''anthropic'', n)), bedrock = (\<lambda>n. (''bedrock'', n)),
      openai = (\<lambda>n. (''openai'', n))\<rparr>
     ''gpt-4o-mini''
     = (''openai'', ''gpt-4o-mini'')"
proof -
  have h1: "\<not> startsWith ''gpt-4o-mini'' ''anthropic:''" by (simp add: startsWith_def)
  have h2: "\<not> startsWith ''gpt-4o-mini'' ''bedrock:''" by (simp add: startsWith_def)
  show ?thesis
    using h1 h2 createProviderModel_default [OF h1 h2,
      of "\<lparr>anthropic = (\<lambda>n. (''anthropic'', n)), bedrock = (\<lambda>n. (''bedrock'', n)),
          openai = (\<lambda>n. (''openai'', n))\<rparr>"]
    by simp
qed

section \<open>The empty identifier\<close>

text \<open>
  C9. The empty identifier raises no error in this layer: no prefix matches, the openai
  constructor receives the empty string, and the factory wraps whatever model that
  constructor returns (a throw of the constructor is the only error).
\<close>

theorem createProviderModel_empty:
  "createProviderModel sdk '''' = openai sdk '''' \<and>
   customModel wrapLanguageModel customMiddleware sdk ''''
     = (case openai sdk '''' of
          Inl err \<Rightarrow> Inl err
        | Inr model \<Rightarrow> wrapLanguageModel model customMiddleware)"
  by (simp add: customModel_def createProviderModel_def startsWith_def)

section \<open>The factory\<close>

lemma createProviderModel_resolve:
  "createProviderModel sdk identifier = resolve (registry sdk) (openai sdk) identifier"
proof -
  have "bedrock sdk (replace identifier ''bedrock:'' '''')
      = bedrock sdk (drop (length ''bedrock:'') identifier)"
    if "startsWith identifier ''bedrock:''"
    using replace_at_start [OF that, of "''''"] by simp
  moreover have "anthropic sdk (replace identifier ''anthropic:'' '''')
      = anthropic sdk (drop (length ''anthropic:'') identifier)"
    if "startsWith identifier ''anthropic:''"
    using replace_at_start [OF that, of "''''"] by simp
  ultimately show ?thesis
    by (simp add: createProviderModel_def registry_def delimiter_def)
qed

text \<open>
  C3. The factory is the specification's \<open>getModel\<close> over the registry of the two tagged
  constructors with openai as default: it resolves the identifier and wraps exactly the
  resolved model with the middleware configuration. Whenever resolution yields a model,
  the handle is the wrapping of that model, so the identifier enters the result only
  through resolution.
\<close>

theorem customModel_resolves_then_wraps:
  "customModel wrapLanguageModel customMiddleware sdk identifier
     = getModel wrapLanguageModel customMiddleware (registry sdk) (openai sdk) identifier \<and>
   (\<forall>model. createProviderModel sdk identifier = Inr model \<longrightarrow>
      customModel wrapLanguageModel customMiddleware sdk identifier
        = wrapLanguageModel model customMiddleware)"
  by (simp add: customModel_def getModel_def createProviderModel_resolve)

theorem customModel_resolves_then_wraps_witness:
  "createProviderModel
     \<lparr>anthropic = (\<lambda>n. Inr (''anthropic'', n)), bedrock = (\<lambda>n. Inr (''bedrock'', n)),
      openai = (\<lambda>n. Inr (''openai'', n))\<rparr>
     ''bedrock:anthropic.claude-3-haiku-20240307-v1:0''
     = (Inr (''bedrock'', ''anthropic.claude-3-haiku-20240307-v1:0'')
          :: string + string \<times> string) \<and>
   customModel (\<lambda>model middleware. Inr (model, middleware)) ''customMiddleware''
     \<lparr>anthropic = (\<lambda>n. Inr (''anthropic'', n)), bedrock = (\<lambda>n. Inr (''bedrock'', n)),
      openai = (\<lambda>n. Inr (''openai'', n))\<rparr>
     ''bedrock:anthropic.claude-3-haiku-20240307-v1:0''
     = (Inr ((''bedrock'', ''anthropic.claude-3-haiku-20240307-v1:0''), ''customMiddleware'')
          :: string + (string \<times> string) \<times> string)"
proof -
  let ?sdk = "\<lparr>anthropic = (\<lambda>n. Inr (''anthropic'', n)),
                bedrock = (\<lambda>n. Inr (''bedrock'', n)),
                openai = (\<lambda>n. Inr (''openai'', n))\<rparr> :: (string + string \<times> string) providers"
  let ?i = "''bedrock:anthropic.claude-3-haiku-20240307-v1:0''"
  have r: "createProviderModel ?sdk ?i
      = Inr (''bedrock'', ''anthropic.claude-3-haiku-20240307-v1:0'')"
    by (simp add: createProviderModel_def startsWith_def)
  from customModel_resolves_then_wraps
    [of "\<lambda>model middleware. Inr (model, middleware)" "''customMiddleware''" ?sdk ?i]
  have "customModel (\<lambda>model middleware. Inr (model, middleware)) ''customMiddleware'' ?sdk ?i
      = (Inr ((''bedrock'', ''anthropic.claude-3-haiku-20240307-v1:0''), ''customMiddleware'')
          :: string + (string \<times> string) \<times> string)"
    using r by blast
  with r show ?thesis by blast
qed

section \<open>Errors of the constructors\<close>

text \<open>
  C4. When the constructor that resolution selects throws, the factory throws that same
  error: nothing catches or translates it, and no other constructor is tried. The three
  cases are the three branches; the other two constructors are arbitrary in each.
\<close>

theorem customModel_constructor_error:
  "(startsWith identifier ''anthropic:'' \<longrightarrow>
      anthropic sdk (drop (length ''anthropic:'') identifier) = Inl err \<longrightarrow>
      createProviderModel sdk identifier = Inl err \<and>
      customModel wrapLanguageModel customMiddleware sdk identifier = Inl err) \<and>
   (startsWith identifier ''bedrock:'' \<longrightarrow>
      bedrock sdk (drop (length ''bedrock:'') identifier) = Inl err \<longrightarrow>
      createProviderModel sdk identifier = Inl err \<and>
      customModel wrapLanguageModel customMiddleware sdk identifier = Inl err) \<and>
   (\<not> startsWith identifier ''anthropic:'' \<longrightarrow> \<not> startsWith identifier ''bedrock:'' \<longrightarrow>
      openai sdk identifier = Inl err \<longrightarrow>
      createProviderModel sdk identifier = Inl err \<and>
      customModel wrapLanguageModel customMiddleware sdk identifier = Inl err)"
proof -
  have "createProviderModel sdk identifier
      = anthropic sdk (drop (length ''anthropic:'') identifier)"
    if "startsWith identifier ''anthropic:''"
    using that by (simp add: createProviderModel_def replace_at_start)
  moreover have "createProviderModel sdk identifier
      = bedrock sdk (drop (length ''bedrock:'') identifier)"
    if "startsWith identifier ''bedrock:''"
    using that bedrock_not_anthropic [OF that]
    by (simp add: createProviderModel_def replace_at_start)
  moreover have "createProviderModel sdk identifier = openai sdk identifier"
    if "\<not> startsWith identifier ''anthropic:''" "\<not> startsWith identifier ''bedrock:''"
    using that by (simp add: createProviderModel_def)
  ultimately show ?thesis
    by (simp add: customModel_def)
qed

theorem customModel_constructor_error_witness:
  "startsWith ''anthropic:claude-3-5-haiku-20241022'' ''anthropic:'' \<and>
   anthropic
     \<lparr>anthropic = (\<lambda>n. Inl ''missing API key''), bedrock = (\<lambda>n. Inr (''bedrock'', n)),
      openai = (\<lambda>n. Inr (''openai'', n))\<rparr>
     (drop (length ''anthropic:'') ''anthropic:claude-3-5-haiku-20241022'')
     = (Inl ''missing API key'' :: string + string \<times> string) \<and>
   customModel (\<lambda>model middleware. Inr (model, middleware)) ''customMiddleware''
     \<lparr>anthropic = (\<lambda>n. Inl ''missing API key''), bedrock = (\<lambda>n. Inr (''bedrock'', n)),
      openai = (\<lambda>n. Inr (''openai'', n))\<rparr>
     ''anthropic:claude-3-5-haiku-20241022''
     = (Inl ''missing API key'' :: string + (string \<times> string) \<times> string)"
proof -
  let ?sdk = "\<lparr>anthropic = (\<lambda>n. Inl ''missing API key''),
                bedrock = (\<lambda>n. Inr (''bedrock'', n)),
                openai = (\<lambda>n. Inr (''openai'', n))\<rparr> :: (string + string \<times> string) providers"
  let ?i = "''anthropic:claude-3-5-haiku-20241022''"
  have h1: "startsWith ?i ''anthropic:''"
    by (simp add: startsWith_def)
  have h2: "anthropic ?sdk (drop (length ''anthropic:'') ?i) = Inl ''missing API key''"
    by simp
  from customModel_constructor_error
    [of ?i ?sdk "''missing API key''" "\<lambda>model middleware. Inr (model, middleware)"
        "''customMiddleware''"] h1 h2
  have "customModel (\<lambda>model middleware. Inr (model, middleware)) ''customMiddleware'' ?sdk ?i
      = (Inl ''missing API key'' :: string + (string \<times> string) \<times> string)"
    by blast
  with h1 h2 show ?thesis by blast
qed

section \<open>Determinism of resolution\<close>

text \<open>
  C5. Which constructor is called, and with which name, is a function of the identifier
  alone: it is the call that resolution reports on the recording SDK, fixed by the
  first matching branch, and every run on any SDK performs exactly that call. The
  factory does the same and wraps the outcome with the middleware configuration it is
  given.
\<close>

theorem createProviderModel_deterministic:
  "createProviderModel sdk identifier
     = invoke sdk (createProviderModel recording identifier) \<and>
   customModel wrapLanguageModel customMiddleware sdk2 identifier
     = (case invoke sdk2 (createProviderModel recording identifier) of
          Inl err \<Rightarrow> Inl err
        | Inr model \<Rightarrow> wrapLanguageModel model customMiddleware) \<and>
   createProviderModel recording identifier
     = (if startsWith identifier ''anthropic:''
        then (Anthropic, drop (length ''anthropic:'') identifier)
        else if startsWith identifier ''bedrock:''
        then (Bedrock, drop (length ''bedrock:'') identifier)
        else (OpenAI, identifier))"
proof -
  have sel: "createProviderModel recording identifier
     = (if startsWith identifier ''anthropic:''
        then (Anthropic, drop (length ''anthropic:'') identifier)
        else if startsWith identifier ''bedrock:''
        then (Bedrock, drop (length ''bedrock:'') identifier)
        else (OpenAI, identifier))"
    by (simp add: createProviderModel_def recording_def replace_at_start)
  have run: "createProviderModel s identifier
      = invoke s (createProviderModel recording identifier)" for s :: "'x providers"
    by (simp add: createProviderModel_def recording_def)
  have "customModel wrapLanguageModel customMiddleware sdk2 identifier
     = (case invoke sdk2 (createProviderModel recording identifier) of
          Inl err \<Rightarrow> Inl err
        | Inr model \<Rightarrow> wrapLanguageModel model customMiddleware)"
    unfolding customModel_def by (simp only: run [of sdk2])
  with sel run [of sdk] show ?thesis
    by (intro conjI)
qed

section \<open>The model catalog\<close>

text \<open>
  C10. In the catalog every entry's id equals its apiIdentifier, the ids are pairwise
  distinct, and \<^verbatim>\<open>DEFAULT_MODEL_NAME\<close>, which is \<^verbatim>\<open>gpt-4o-mini\<close>, is the id of an entry.
\<close>

theorem models_catalog_invariant:
  "list_all (\<lambda>m. id_field m = apiIdentifier m) models \<and>
   distinct (map id_field models) \<and>
   DEFAULT_MODEL_NAME = ''gpt-4o-mini'' \<and>
   DEFAULT_MODEL_NAME \<in> set (map id_field models)"
  by (simp add: models_def DEFAULT_MODEL_NAME_def)

section \<open>The logger\<close>




section \<open>The file upload endpoint\<close>

lemma FileSchema_safeParse_valid:
  "FileSchema_safeParse entry = Inr f \<longleftrightarrow>
     entry = File_entry f \<and> size_field f \<le> 5 * 1024 * 1024 \<and>
     (type_field f = ''image/jpeg'' \<or> type_field f = ''image/png'')"
  by (cases entry) (auto simp: FileSchema_safeParse_def Let_def)

lemma POST_stores_only_validated:
  assumes "fst (POST logger put session request w) = Inr \<lparr>status = code, body = Json_data d\<rparr>
           \<or> storage (snd (POST logger put session request w)) \<noteq> storage w"
  shows "\<exists>user form f. session = Inr (Some user) \<and> \<not> body_is_null request \<and>
           formData request = Inr form \<and> form ''file'' = Some (File_entry f) \<and>
           FileSchema_safeParse (File_entry f) = Inr f"
proof (cases session)
  case (Inl rejection)
  with assms show ?thesis by (simp add: POST_def)
next
  case (Inr s)
  show ?thesis
  proof (cases s)
    case None
    with Inr assms show ?thesis by (simp add: POST_def)
  next
    case (Some user)
    show ?thesis
    proof (cases "body_is_null request")
      case True
      with Inr Some assms show ?thesis by (simp add: POST_def)
    next
      case False
      show ?thesis
      proof (cases "formData request")
        case (Inl err)
        with Inr Some False assms show ?thesis by (simp add: POST_def)
      next
        case form: (Inr form)
        show ?thesis
        proof (cases "form ''file''")
          case None
          with Inr Some False form assms show ?thesis by (simp add: POST_def)
        next
          case entry: (Some e)
          show ?thesis
          proof (cases "falsy e")
            case True
            with Inr Some False form entry assms show ?thesis by (simp add: POST_def)
          next
            case truthy: False
            show ?thesis
            proof (cases "FileSchema_safeParse e")
              case (Inl issues)
              with Inr Some False form entry truthy assms show ?thesis
                by (simp add: POST_def Let_def)
            next
              case valid: (Inr f)
              then have "e = File_entry f"
                by (simp add: FileSchema_safeParse_valid)
              with Inr Some False form entry valid show ?thesis by simp
            qed
          qed
        qed
      qed
    qed
  qed
qed

lemma POST_rejects_invalid:
  assumes "session = Inr (Some user)" "\<not> body_is_null request"
    "formData request = Inr form" "form ''file'' = Some file" "\<not> falsy file"
    "FileSchema_safeParse file = Inl issues"
  shows "POST logger put session request w =
           (Inr \<lparr>status = 400, body = Json_error (join issues '','')\<rparr>,
            w\<lparr>console_out :=
                warn logger [Message (''File validation failed: '' @ join issues '','')]
                  (console_out w)\<rparr>)"
  using assms by (simp add: POST_def Let_def)

lemma POST_puts_valid:
  assumes "session = Inr (Some user)" "\<not> body_is_null request"
    "formData request = Inr form" "form ''file'' = Some (File_entry f)"
    "FileSchema_safeParse (File_entry f) = Inr f"
    "put (name f) (arrayBuffer f) (storage w) = (Inr d, stored)"
  shows "fst (POST logger put session request w) = Inr \<lparr>status = 200, body = Json_data d\<rparr> \<and>
         storage (snd (POST logger put session request w)) = stored"
  using assms by (simp add: POST_def Let_def)

lemma FileSchema_safeParse_invalid:
  "\<not> (size_field f \<le> 5 * 1024 * 1024 \<and>
       (type_field f = ''image/jpeg'' \<or> type_field f = ''image/png'')) \<Longrightarrow>
   \<exists>issues. FileSchema_safeParse (File_entry f) = Inl issues"
  by (auto simp: FileSchema_safeParse_def Let_def)

text \<open>
  C8. The endpoint stores a blob, or answers with a storage descriptor, only for a
  request whose file entry passes validation: a size of at most 5 * 1024 * 1024 bytes
  and the type \<^verbatim>\<open>image/jpeg\<close> or \<^verbatim>\<open>image/png\<close>. A blob that passes is handed to \<^verbatim>\<open>put\<close>
  and the descriptor \<^verbatim>\<open>put\<close> returns is the response. When validation of the submitted
  entry fails, the response is an error with status 400 and the storage is as before.
\<close>

theorem POST_upload_validation:
  "((fst (POST logger put session request w) = Inr \<lparr>status = code, body = Json_data d\<rparr>
      \<or> storage (snd (POST logger put session request w)) \<noteq> storage w) \<longrightarrow>
     (\<exists>user form f. session = Inr (Some user) \<and> \<not> body_is_null request \<and>
        formData request = Inr form \<and> form ''file'' = Some (File_entry f) \<and>
        size_field f \<le> 5 * 1024 * 1024 \<and>
        (type_field f = ''image/jpeg'' \<or> type_field f = ''image/png''))) \<and>
   (session = Inr (Some user) \<longrightarrow> \<not> body_is_null request \<longrightarrow>
    formData request = Inr form \<longrightarrow> form ''file'' = Some (File_entry f) \<longrightarrow>
      (size_field f \<le> 5 * 1024 * 1024 \<and>
       (type_field f = ''image/jpeg'' \<or> type_field f = ''image/png'') \<longrightarrow>
       put (name f) (arrayBuffer f) (storage w) = (Inr d', stored) \<longrightarrow>
         fst (POST logger put session request w) = Inr \<lparr>status = 200, body = Json_data d'\<rparr> \<and>
         storage (snd (POST logger put session request w)) = stored) \<and>
      (\<not> (size_field f \<le> 5 * 1024 * 1024 \<and>
          (type_field f = ''image/jpeg'' \<or> type_field f = ''image/png'')) \<longrightarrow>
         (\<exists>message. fst (POST logger put session request w)
            = Inr \<lparr>status = 400, body = Json_error message\<rparr>) \<and>
         storage (snd (POST logger put session request w)) = storage w)) \<and>
   (session = Inr (Some user) \<longrightarrow> \<not> body_is_null request \<longrightarrow>
    formData request = Inr form \<longrightarrow> form ''file'' = Some file \<longrightarrow> \<not> falsy file \<longrightarrow>
    FileSchema_safeParse file = Inl issues \<longrightarrow>
      fst (POST logger put session request w)
        = Inr \<lparr>status = 400, body = Json_error (join issues '','')\<rparr> \<and>
      storage (snd (POST logger put session request w)) = storage w)"
proof (intro conjI impI)
  assume "fst (POST logger put session request w) = Inr \<lparr>status = code, body = Json_data d\<rparr>
      \<or> storage (snd (POST logger put session request w)) \<noteq> storage w"
  from POST_stores_only_validated [OF this]
  show "\<exists>user form f. session = Inr (Some user) \<and> \<not> body_is_null request \<and>
        formData request = Inr form \<and> form ''file'' = Some (File_entry f) \<and>
        size_field f \<le> 5 * 1024 * 1024 \<and>
        (type_field f = ''image/jpeg'' \<or> type_field f = ''image/png'')"
    by (auto simp: FileSchema_safeParse_valid)
next
  assume a: "session = Inr (Some user)" "\<not> body_is_null request"
    "formData request = Inr form" "form ''file'' = Some (File_entry f)"
    and v: "size_field f \<le> 5 * 1024 * 1024 \<and>
       (type_field f = ''image/jpeg'' \<or> type_field f = ''image/png'')"
    and p: "put (name f) (arrayBuffer f) (storage w) = (Inr d', stored)"
  from v have "FileSchema_safeParse (File_entry f) = Inr f"
    by (simp add: FileSchema_safeParse_valid)
  from POST_puts_valid [where put = put and logger = logger, OF a this p]
  show "fst (POST logger put session request w) = Inr \<lparr>status = 200, body = Json_data d'\<rparr>"
    and "storage (snd (POST logger put session request w)) = stored"
    by simp_all
next
  assume a: "session = Inr (Some user)" "\<not> body_is_null request"
    "formData request = Inr form" "form ''file'' = Some (File_entry f)"
    and v: "\<not> (size_field f \<le> 5 * 1024 * 1024 \<and>
       (type_field f = ''image/jpeg'' \<or> type_field f = ''image/png''))"
  from FileSchema_safeParse_invalid [OF v]
  obtain issues where "FileSchema_safeParse (File_entry f) = Inl issues" ..
  from POST_rejects_invalid [OF a _ this, of logger put w]
  show "\<exists>message. fst (POST logger put session request w)
            = Inr \<lparr>status = 400, body = Json_error message\<rparr>"
    and "storage (snd (POST logger put session request w)) = storage w"
    by simp_all
next
  assume a: "session = Inr (Some user)" "\<not> body_is_null request"
    "formData request = Inr form" "form ''file'' = Some file" "\<not> falsy file"
    "FileSchema_safeParse file = Inl issues"
  from POST_rejects_invalid [OF a, of logger put w]
  show "fst (POST logger put session request w)
        = Inr \<lparr>status = 400, body = Json_error (join issues '','')\<rparr>"
    and "storage (snd (POST logger put session request w)) = storage w"
    by simp_all
qed

theorem POST_upload_validation_witness:
  "fst (POST \<lparr>debug = (\<lambda>args out. out), info = (\<lambda>args out. out),
         warn = (\<lambda>args out. out @ [(Console_warn, ''WARN'')]),
         error = (\<lambda>args out. out @ [(Console_error, ''ERROR'')])\<rparr>
        (\<lambda>filename bytes stored. (Inr filename, (filename, bytes) # stored))
        (Inr (Some ''user'') :: string + string option)
        \<lparr>body_is_null = False,
          formData = Inr (\<lambda>key. if key = ''file''
            then Some (File_entry \<lparr>name = ''big.png'', size_field = 5242881,
                   type_field = ''image/png'', arrayBuffer = [1::nat]\<rparr>)
            else None)\<rparr>
        \<lparr>storage = [], console_out = []\<rparr>)
     = (Inr \<lparr>status = 400, body = Json_error ''File size should be less than 5MB''\<rparr>
          :: string + string Response) \<and>
   storage (snd (POST \<lparr>debug = (\<lambda>args out. out), info = (\<lambda>args out. out),
         warn = (\<lambda>args out. out @ [(Console_warn, ''WARN'')]),
         error = (\<lambda>args out. out @ [(Console_error, ''ERROR'')])\<rparr>
        (\<lambda>filename bytes stored. (Inr filename, (filename, bytes) # stored))
        (Inr (Some ''user'') :: string + string option)
        \<lparr>body_is_null = False,
          formData = Inr (\<lambda>key. if key = ''file''
            then Some (File_entry \<lparr>name = ''big.png'', size_field = 5242881,
                   type_field = ''image/png'', arrayBuffer = [1::nat]\<rparr>)
            else None)\<rparr>
        \<lparr>storage = [], console_out = []\<rparr>)) = [] \<and>
   fst (POST \<lparr>debug = (\<lambda>args out. out), info = (\<lambda>args out. out),
         warn = (\<lambda>args out. out @ [(Console_warn, ''WARN'')]),
         error = (\<lambda>args out. out @ [(Console_error, ''ERROR'')])\<rparr>
        (\<lambda>filename bytes stored. (Inr filename, (filename, bytes) # stored))
        (Inr (Some ''user'') :: string + string option)
        \<lparr>body_is_null = False,
          formData = Inr (\<lambda>key. if key = ''file''
            then Some (File_entry \<lparr>name = ''ok.png'', size_field = 5242880,
                   type_field = ''image/png'', arrayBuffer = [1::nat]\<rparr>)
            else None)\<rparr>
        \<lparr>storage = [], console_out = []\<rparr>)
     = (Inr \<lparr>status = 200, body = Json_data ''ok.png''\<rparr> :: string + string Response) \<and>
   storage (snd (POST \<lparr>debug = (\<lambda>args out. out), info = (\<lambda>args out. out),
         warn = (\<lambda>args out. out @ [(Console_warn, ''WARN'')]),
         error = (\<lambda>args out. out @ [(Console_error, ''ERROR'')])\<rparr>
        (\<lambda>filename bytes stored. (Inr filename, (filename, bytes) # stored))
        (Inr (Some ''user'') :: string + string option)
        \<lparr>body_is_null = False,
          formData = Inr (\<lambda>key. if key = ''file''
            then Some (File_entry \<lparr>name = ''ok.png'', size_field = 5242880,
                   type_field = ''image/png'', arrayBuffer = [1::nat]\<rparr>)
            else None)\<rparr>
        \<lparr>storage = [], console_out = []\<rparr>)) = [(''ok.png'', [1])]"
proof -
  let ?logger = "\<lparr>debug = (\<lambda>args out. out), info = (\<lambda>args out. out),
                   warn = (\<lambda>args out. out @ [(Console_warn, ''WARN'')]),
                   error = (\<lambda>args out. out @ [(Console_error, ''ERROR'')])\<rparr>
                   :: (string log_arg, console) logger"
  let ?put = "\<lambda>filename bytes stored.
                (Inr filename :: string + string, (filename, bytes :: nat list) # stored)"
  let ?session = "Inr (Some ''user'') :: string + string option"
  let ?big = "\<lparr>name = ''big.png'', size_field = 5242881, type_field = ''image/png'',
               arrayBuffer = [1::nat]\<rparr>"
  let ?ok = "\<lparr>name = ''ok.png'', size_field = 5242880, type_field = ''image/png'',
              arrayBuffer = [1::nat]\<rparr>"
  let ?form = "\<lambda>f key. if key = ''file'' then Some (File_entry f) else None"
  let ?request = "\<lambda>f. \<lparr>body_is_null = False, formData = Inr (?form f)\<rparr>
                   :: (nat list, string) Request"
  let ?w = "\<lparr>storage = [], console_out = []\<rparr> :: (string \<times> nat list) list world"
  have big: "\<not> (size_field ?big \<le> 5 * 1024 * 1024 \<and>
               (type_field ?big = ''image/jpeg'' \<or> type_field ?big = ''image/png''))"
    by simp
  have ok: "size_field ?ok \<le> 5 * 1024 * 1024 \<and>
              (type_field ?ok = ''image/jpeg'' \<or> type_field ?ok = ''image/png'')"
    by simp
  have stored: "?put (name ?ok) (arrayBuffer ?ok) (storage ?w) = (Inr ''ok.png'', [(''ok.png'', [1])])"
    by simp
  have rejected:
    "(\<exists>message. fst (POST ?logger ?put ?session (?request ?big) ?w)
        = Inr \<lparr>status = 400, body = Json_error message\<rparr>) \<and>
     storage (snd (POST ?logger ?put ?session (?request ?big) ?w)) = storage ?w"
    using big
      POST_upload_validation [where logger = ?logger and put = ?put and session = ?session
        and request = "?request ?big" and w = ?w and user = "''user''"
        and form = "?form ?big" and f = ?big]
    by simp
  have accepted:
    "fst (POST ?logger ?put ?session (?request ?ok) ?w)
       = Inr \<lparr>status = 200, body = Json_data ''ok.png''\<rparr> \<and>
     storage (snd (POST ?logger ?put ?session (?request ?ok) ?w)) = [(''ok.png'', [1])]"
    using ok stored
      POST_upload_validation [where logger = ?logger and put = ?put and session = ?session
        and request = "?request ?ok" and w = ?w and user = "''user''"
        and form = "?form ?ok" and f = ?ok and d' = "''ok.png''"
        and stored = "[(''ok.png'', [1])]"]
    by simp
  have "fst (POST ?logger ?put ?session (?request ?big) ?w)
      = Inr \<lparr>status = 400, body = Json_error ''File size should be less than 5MB''\<rparr>"
    by (simp add: POST_def FileSchema_safeParse_def Let_def)
  with rejected accepted show ?thesis by simp
qed

section \<open>The middleware chain\<close>

lemma transformAll_append:
  "transformAll (stages @ later) params = transformAll later (transformAll stages params)"
  by (induction stages arbitrary: params) simp_all

text \<open>
  C6. For the stage list \<open>[A, B]\<close> whose stages both define \<^verbatim>\<open>transformParams\<close>, the real
  provider is called with \<open>B.transformParams (A.transformParams original)\<close>, for generate
  and for stream: the real call sits inside the wrappers with exactly these parameters,
  and with transparent wrappers the wrapped operation is the real one on them. In any
  list the transformations apply in list order: a last stage receives the output of the
  stages before it, and passes it on unchanged when it defines no \<^verbatim>\<open>transformParams\<close>.
\<close>

theorem wrap_transformParams_in_list_order:
  "(transformParams A = Some f \<longrightarrow> transformParams B = Some g \<longrightarrow>
      transformAll [A, B] original = g (f original) \<and>
      generate (wrap model [A, B]) original
        = wrapCall wrapGenerate [A, B] (\<lambda>_. generate model (g (f original))) (g (f original)) \<and>
      stream (wrap model [A, B]) original
        = wrapCall wrapStream [A, B] (\<lambda>_. stream model (g (f original))) (g (f original)) \<and>
      (wrapGenerate A = None \<longrightarrow> wrapGenerate B = None \<longrightarrow>
         generate (wrap model [A, B]) original = generate model (g (f original))) \<and>
      (wrapStream A = None \<longrightarrow> wrapStream B = None \<longrightarrow>
         stream (wrap model [A, B]) original = stream model (g (f original)))) \<and>
   transformAll (stages @ [S]) params
     = (case transformParams S of
          None \<Rightarrow> transformAll stages params
        | Some h \<Rightarrow> h (transformAll stages params))"
  by (simp add: wrap_def Let_def transformAll_append)

theorem wrap_transformParams_in_list_order_witness:
  "generate
     (wrap \<lparr>generate = (\<lambda>params. params), stream = (\<lambda>params. [params])\<rparr>
        [\<lparr>transformParams = Some (\<lambda>params. params + 1), wrapGenerate = None,
          wrapStream = None\<rparr>,
         \<lparr>transformParams = Some (\<lambda>params. 2 * params), wrapGenerate = None,
          wrapStream = None\<rparr>])
     (3 :: nat) = 8 \<and>
   stream
     (wrap \<lparr>generate = (\<lambda>params. params), stream = (\<lambda>params. [params])\<rparr>
        [\<lparr>transformParams = Some (\<lambda>params. params + 1), wrapGenerate = None,
          wrapStream = None\<rparr>,
         \<lparr>transformParams = Some (\<lambda>params. 2 * params), wrapGenerate = None,
          wrapStream = None\<rparr>])
     (3 :: nat) = [8]"
proof -
  let ?A = "\<lparr>transformParams = Some (\<lambda>params. params + 1), wrapGenerate = None,
              wrapStream = None\<rparr> :: (nat, nat, nat list) MiddlewareStage"
  let ?B = "\<lparr>transformParams = Some (\<lambda>params. 2 * params), wrapGenerate = None,
              wrapStream = None\<rparr> :: (nat, nat, nat list) MiddlewareStage"
  let ?model = "\<lparr>generate = (\<lambda>params. params), stream = (\<lambda>params. [params])\<rparr>
                  :: (nat, nat, nat list) CallableModelObject"
  have "generate (wrap ?model [?A, ?B]) 3 = generate ?model (2 * (3 + 1)) \<and>
        stream (wrap ?model [?A, ?B]) 3 = stream ?model (2 * (3 + 1))"
    using wrap_transformParams_in_list_order
      [where A = ?A and B = ?B and f = "\<lambda>params. params + 1" and g = "\<lambda>params. 2 * params"
         and model = ?model and original = 3 and stages = "[]" and S = ?A and params = 3]
    by simp
  then show ?thesis by simp
qed

end
